theory Spec2Isabelle
  imports Complex_Main "HOL-Library.Sublist"
begin

section \<open>JavaScript strings\<close>

text \<open>
  A JavaScript string is a sequence of UTF-16 code units. The model is \<^typ>\<open>string\<close>, a list of
  8-bit characters read as the code units U+0000 to U+00FF (ASCII and the Latin-1 supplement):
  \<open>toLowerCase\<close> and the regular-expression classes \<open>\s\<close> and \<open>\w\<close> are written out exactly for
  this range, which \<open>toLowerCase\<close> does not leave. \<open>undefined\<close> and \<open>null\<close> are \<^const>\<open>None\<close>.
\<close>

text \<open>The class \<open>\s\<close>: tab, line feed, vertical tab, form feed, carriage return, space, no-break space.\<close>

definition space_chars :: string where
  "space_chars = [CHR 0x09, CHR 0x0A, CHR 0x0B, CHR 0x0C, CHR 0x0D, CHR 0x20, CHR 0xA0]"

definition is_space :: "char \<Rightarrow> bool" where
  "is_space c = (c \<in> set space_chars)"

text \<open>The class \<open>\w\<close>: \<open>[A-Za-z0-9_]\<close>.\<close>

definition word_chars :: string where
  "word_chars = ''abcdefghijklmnopqrstuvwxyzABCDEFGHIJKLMNOPQRSTUVWXYZ0123456789_''"

definition is_word_char :: "char \<Rightarrow> bool" where
  "is_word_char c = (c \<in> set word_chars)"

text \<open>
  \<open>String.prototype.toLowerCase\<close>: in the range of the model, \<open>A\<close> to \<open>Z\<close> (65 to 90) and the
  Latin-1 capitals U+00C0 to U+00DE without the multiplication sign U+00D7 move up by 32; every
  other code unit stays.
\<close>

definition toLowerChar :: "char \<Rightarrow> char" where
  "toLowerChar c =
     (let n = (of_char c :: nat) in
      if (65 \<le> n \<and> n \<le> 90) \<or> (192 \<le> n \<and> n \<le> 222 \<and> n \<noteq> 215)
      then char_of (n + 32) else c)"

definition toLowerCase :: "string \<Rightarrow> string" where
  "toLowerCase s = map toLowerChar s"

text \<open>
  \<open>String.prototype.toUpperCase\<close>, on the strings the parser applies it to: the captures of its
  patterns, which are ASCII lower-case letters (97 to 122 move down by 32).
\<close>

definition toUpperChar :: "char \<Rightarrow> char" where
  "toUpperChar c =
     (let n = (of_char c :: nat) in
      if 97 \<le> n \<and> n \<le> 122 then char_of (n - 32) else c)"

definition toUpperCase :: "string \<Rightarrow> string" where
  "toUpperCase s = map toUpperChar s"

text \<open>\<open>s.startsWith(p)\<close> and \<open>s.includes(p)\<close> (\<open>p\<close> occurs in \<open>s\<close> at some position).\<close>

definition startsWith :: "string \<Rightarrow> string \<Rightarrow> bool" where
  "startsWith s p = prefix p s"

fun includes_str :: "string \<Rightarrow> string \<Rightarrow> bool" where
  "includes_str [] p = (p = [])"
| "includes_str (c # s) p = (if prefix p (c # s) then True else includes_str s p)"

text \<open>\<open>ws.join(' ')\<close>.\<close>

fun join :: "string list \<Rightarrow> string" where
  "join [] = []"
| "join [w] = w"
| "join (w # v # ws) = w @ CHR '' '' # join (v # ws)"

text \<open>
  \<open>s.split(/\s+/)\<close>: the pieces of \<open>s\<close> between its maximal runs of white space. A run at the
  start or at the end leaves an empty piece there, and the empty string splits into one empty
  piece.
\<close>

function split_spaces :: "string \<Rightarrow> string list" where
  "split_spaces s =
     (let w = takeWhile (\<lambda>c. \<not> is_space c) s;
          r = dropWhile (\<lambda>c. \<not> is_space c) s
      in if r = [] then [w] else w # split_spaces (dropWhile is_space r))"
  by pat_completeness auto

termination
proof (relation "measure length")
  fix s w r
  assume r: "r = dropWhile (\<lambda>c. \<not> is_space c) s" and ne: "r \<noteq> []"
  from ne obtain c t where ct: "r = c # t" by (cases r) auto
  have "length (dropWhile is_space r) \<le> length t"
  proof -
    have "dropWhile (\<lambda>c. \<not> is_space c) s \<noteq> []" using r ne by simp
    then have "\<not> \<not> is_space (hd (dropWhile (\<lambda>c. \<not> is_space c) s))"
      by (rule hd_dropWhile)
    then have "is_space (hd r)" unfolding r by simp
    then have "is_space c" unfolding ct by simp
    then show ?thesis using ct length_dropWhile_le [of is_space t] by simp
  qed
  moreover have "length r \<le> length s" using r by (simp add: length_dropWhile_le)
  ultimately show "(dropWhile is_space r, s) \<in> measure length" using ct by simp
qed simp

declare split_spaces.simps [simp del]

section \<open>Regular expressions\<close>

text \<open>
  The fragment of JavaScript's regular expressions that the parser's patterns use: literal
  text, a character class (given by its characters), sequence, alternative, the greedy option
  \<open>r?\<close>, the greedy repetitions \<open>c*\<close> and \<open>c+\<close> of a class, and numbered capture groups.
\<close>

datatype regex =
    Lit string
  | Cls string
  | Seq regex regex
  | Alt regex regex
  | Opt regex
  | Star string
  | Plus string
  | Grp nat regex

text \<open>
  A matcher state is the captures so far and the input left. \<open>rmatch r st\<close> lists the states
  after every way of matching \<open>r\<close> at \<open>st\<close>, in the order in which the backtracking matcher tries
  them: the first alternative before the second, an option taken before it is skipped, a
  repetition longest first.
\<close>

type_synonym captures = "(nat \<times> string) list"

type_synonym mstate = "captures \<times> string"

fun rmatch :: "regex \<Rightarrow> mstate \<Rightarrow> mstate list" where
  "rmatch (Lit l) (cs, s) = (if prefix l s then [(cs, drop (length l) s)] else [])"
| "rmatch (Cls k) (cs, s) =
     (case s of [] \<Rightarrow> [] | c # t \<Rightarrow> if c \<in> set k then [(cs, t)] else [])"
| "rmatch (Seq a b) st = concat (map (rmatch b) (rmatch a st))"
| "rmatch (Alt a b) st = rmatch a st @ rmatch b st"
| "rmatch (Opt a) st = rmatch a st @ [st]"
| "rmatch (Star k) (cs, s) =
     map (\<lambda>i. (cs, drop i s)) (rev [0 ..< Suc (length (takeWhile (\<lambda>c. c \<in> set k) s))])"
| "rmatch (Plus k) (cs, s) =
     map (\<lambda>i. (cs, drop i s)) (rev [1 ..< Suc (length (takeWhile (\<lambda>c. c \<in> set k) s))])"
| "rmatch (Grp n a) (cs, s) =
     map (\<lambda>(cs', t). ((n, take (length s - length t) s) # cs', t)) (rmatch a (cs, s))"

text \<open>\<open>seqs\<close> and \<open>alts\<close> chain sequences and alternatives; \<open>seqs []\<close> matches the empty string and
  \<open>alts []\<close> matches nothing.\<close>

fun seqs :: "regex list \<Rightarrow> regex" where
  "seqs [] = Lit []"
| "seqs [r] = r"
| "seqs (r # rs) = Seq r (seqs rs)"

fun alts :: "regex list \<Rightarrow> regex" where
  "alts [] = Cls []"
| "alts [r] = r"
| "alts (r # rs) = Alt r (alts rs)"

text \<open>
  \<open>s.match(/^r$/)\<close>: the captures of the first way of matching \<open>r\<close> from the start of \<open>s\<close> that
  ends at its end (without the \<open>m\<close> flag \<open>^\<close> and \<open>$\<close> are the ends of the input).
\<close>

definition match_whole :: "regex \<Rightarrow> string \<Rightarrow> captures option" where
  "match_whole r s = map_option fst (find (\<lambda>(cs, t). t = []) (rmatch r ([], s)))"

text \<open>\<open>s.match(/^r/)\<close>: the captures of the first way of matching \<open>r\<close> from the start of \<open>s\<close>.\<close>

definition match_start :: "regex \<Rightarrow> string \<Rightarrow> captures option" where
  "match_start r s = (case rmatch r ([], s) of [] \<Rightarrow> None | (cs, t) # _ \<Rightarrow> Some cs)"

text \<open>\<open>s.match(/r/)\<close>: the first match of \<open>r\<close> at the leftmost position of \<open>s\<close> that has one.\<close>

fun match_first :: "regex \<Rightarrow> string \<Rightarrow> captures option" where
  "match_first r [] = match_start r []"
| "match_first r (c # s) =
     (case match_start r (c # s) of Some cs \<Rightarrow> Some cs | None \<Rightarrow> match_first r s)"

text \<open>\<open>match[n]\<close>: the text of group \<open>n\<close>, \<open>undefined\<close> when the group took no part in the match.\<close>

definition group :: "captures \<Rightarrow> nat \<Rightarrow> string option" where
  "group cs n = map_of cs n"

text \<open>The value of \<open>x\<close> in a condition: \<open>undefined\<close>, \<open>null\<close> and the empty string are falsy.\<close>

fun truthy :: "string option \<Rightarrow> bool" where
  "truthy None = False"
| "truthy (Some s) = (s \<noteq> [])"

text \<open>A value inside string concatenation or a template: \<open>undefined\<close> prints as its name.\<close>

fun to_string :: "string option \<Rightarrow> string" where
  "to_string None = ''undefined''"
| "to_string (Some s) = s"

section \<open>The move parser (src/ts/voice/MoveParser.ts)\<close>

subsection \<open>Data\<close>

datatype color = White | Black

record ParseContext =
  currentFEN :: string
  legalMoves :: "string list"
  lastMove :: "string option"
  playerColor :: color

text \<open>
  \<open>confidence\<close> is a JavaScript number. The parser returns the literals 0, 0.7, 0.8, 0.85, 0.9
  and 0.95 only and never computes with them, so the model takes the numbers they denote.
\<close>

record ChessMoveResult =
  san :: "string option"
  confidence :: real
  originalText :: string
  error :: "string option"

text \<open>The table \<open>homophones\<close>, entry by entry.\<close>

definition homophones :: "(string \<times> string) list" where
  "homophones =
     [(''won'', ''1''), (''one'', ''1''),
      (''to'', ''2''), (''too'', ''2''), (''two'', ''2''),
      (''three'', ''3''), (''tree'', ''3''),
      (''for'', ''4''), (''four'', ''4''), (''fore'', ''4''),
      (''five'', ''5''), (''fife'', ''5''),
      (''six'', ''6''), (''sick'', ''6''),
      (''seven'', ''7''),
      (''ate'', ''8''), (''eight'', ''8''),
      (''a'', ''a''), (''ay'', ''a''),
      (''be'', ''b''), (''bee'', ''b''),
      (''see'', ''c''), (''sea'', ''c''),
      (''dee'', ''d''),
      (''e'', ''e''), (''ee'', ''e''),
      (''f'', ''f''), (''ef'', ''f''),
      (''g'', ''g''), (''gee'', ''g''),
      (''h'', ''h''), (''aitch'', ''h''),
      (''night'', ''knight''), (''nite'', ''knight''),
      (''king'', ''king''), (''k'', ''king''),
      (''queen'', ''queen''), (''q'', ''queen''),
      (''rook'', ''rook''), (''castle'', ''rook''), (''tower'', ''rook''),
      (''bishop'', ''bishop''), (''b'', ''bishop''),
      (''pawn'', ''pawn''), (''p'', ''pawn''), (''pond'', ''pawn''),
      (''takes'', ''takes''), (''take'', ''takes''), (''captures'', ''takes''),
      (''capture'', ''takes''),
      (''x'', ''takes''), (''cross'', ''takes''), (''times'', ''takes''),
      (''check'', ''check''), (''checkmate'', ''checkmate''), (''mate'', ''checkmate''),
      (''castles'', ''castle''),
      (''short'', ''short''), (''king side'', ''short''), (''kingside'', ''short''),
      (''long'', ''long''), (''queen side'', ''long''), (''queenside'', ''long''),
      (''move'', []), (''moves'', []), (''go'', []), (''goes'', []),
      (''the'', []), (''an'', []),
      (''piece'', []), (''pieces'', [])]"

text \<open>The table \<open>pieceSymbols\<close>.\<close>

definition pieceSymbols :: "(string \<times> string) list" where
  "pieceSymbols =
     [(''king'', ''K''), (''queen'', ''Q''), (''rook'', ''R''), (''bishop'', ''B''),
      (''knight'', ''N''), (''pawn'', [])]"

subsection \<open>cleanTranscript\<close>

text \<open>\<open>.replace(/[^\w\s]/g, ' ')\<close>: every character outside \<open>\w\<close> and \<open>\s\<close> becomes a space.\<close>

definition strip_punctuation :: "string \<Rightarrow> string" where
  "strip_punctuation s = map (\<lambda>c. if is_word_char c \<or> is_space c then c else CHR '' '') s"

text \<open>
  \<open>this.homophones[word] || word\<close>, as \<open>join\<close> prints it. An entry whose value is the empty
  string is falsy, so the word itself is kept. \<open>homophones\<close> is an object literal and inherits
  from \<open>Object.prototype\<close>, whose members with a lower-case name are \<open>constructor\<close> (the function
  \<open>Object\<close>) and \<open>__proto__\<close> (\<open>Object.prototype\<close> itself); both are truthy and pass the
  filter, and \<open>join\<close> converts them to strings (the function's text is the one of V8, the
  engine of the repository's test runner).
\<close>

definition substitute :: "string \<Rightarrow> string" where
  "substitute word =
     (case map_of homophones word of
        Some v \<Rightarrow> if v \<noteq> [] then v else word
      | None \<Rightarrow>
          if word = ''constructor'' then ''function Object() { [native code] }''
          else if word = ''__proto__'' then ''[object Object]''
          else word)"

definition cleanTranscript :: "string \<Rightarrow> string" where
  "cleanTranscript text =
     (let cleaned = strip_punctuation (toLowerCase text);
          words = split_spaces cleaned;
          cleanedWords = filter (\<lambda>word. word \<noteq> []) (map substitute words)
      in join cleanedWords)"

text \<open>
  The characters of the words of a cleaned text: the lower-case letters, the digits and the
  underscore, which is what \<open>\w\<close> keeps of a lower-cased text.
\<close>

definition token_chars :: string where
  "token_chars = ''abcdefghijklmnopqrstuvwxyz0123456789_''"

text \<open>
  The words whose substitute is substituted again by a second pass: \<open>castles\<close> gives \<open>castle\<close>
  and \<open>be\<close>, \<open>bee\<close> give \<open>b\<close>, both keys of \<open>homophones\<close> with another value (\<open>rook\<close>,
  \<open>bishop\<close>); \<open>constructor\<close> and \<open>__proto__\<close> give texts with capitals and punctuation.
\<close>

definition remapped_words :: "string list" where
  "remapped_words = [''castles'', ''be'', ''bee'', ''constructor'', ''__proto__'']"

subsection \<open>parseStandardMove\<close>

definition files :: string where
  "files = ''abcdefgh''"

definition ranks :: string where
  "ranks = ''12345678''"

text \<open>\<open>[a-h][1-8]\<close> and \<open>(?:\s+(check|checkmate))?\<close>.\<close>

definition square :: regex where
  "square = Seq (Cls files) (Cls ranks)"

definition check_suffix :: regex where
  "check_suffix = Opt (Seq (Plus space_chars) (Grp 3 (Alt (Lit ''check'') (Lit ''checkmate''))))"

text \<open>\<open>/^(knight|queen|king|rook|bishop|pawn)?\s*(?:2|takes)\s*([a-h][1-8])(?:\s+(check|checkmate))?$/\<close>\<close>

definition pattern1 :: regex where
  "pattern1 =
     seqs [Opt (Grp 1 (alts [Lit ''knight'', Lit ''queen'', Lit ''king'', Lit ''rook'',
                             Lit ''bishop'', Lit ''pawn''])),
           Star space_chars,
           Alt (Lit ''2'') (Lit ''takes''),
           Star space_chars,
           Grp 2 square,
           check_suffix]"

text \<open>\<open>/^([a-h])(?:takes\s*)?([a-h][1-8])(?:\s+(check|checkmate))?$/\<close>\<close>

definition pattern2 :: regex where
  "pattern2 =
     seqs [Grp 1 (Cls files),
           Opt (Seq (Lit ''takes'') (Star space_chars)),
           Grp 2 square,
           check_suffix]"

text \<open>\<open>/^([nqkrb])?(?:takes\s*|x\s*)?([a-h][1-8])(?:\s+(check|checkmate))?$/\<close>\<close>

definition pattern3 :: regex where
  "pattern3 =
     seqs [Opt (Grp 1 (Cls ''nqkrb'')),
           Opt (Alt (Seq (Lit ''takes'') (Star space_chars)) (Seq (Lit ''x'') (Star space_chars))),
           Grp 2 square,
           check_suffix]"

definition patterns :: "regex list" where
  "patterns = [pattern1, pattern2, pattern3]"

text \<open>The loop over \<open>patterns\<close>: the match of the first pattern that matches.\<close>

fun first_match :: "regex list \<Rightarrow> string \<Rightarrow> captures option" where
  "first_match [] s = None"
| "first_match (p # ps) s =
     (case match_whole p s of Some m \<Rightarrow> Some m | None \<Rightarrow> first_match ps s)"

text \<open>The result every strategy returns when it finds no move.\<close>

definition no_move :: "string \<Rightarrow> ChessMoveResult" where
  "no_move cleaned = \<lparr>san = None, confidence = 0, originalText = cleaned, error = None\<rparr>"

definition parseStandardMove :: "string \<Rightarrow> ParseContext option \<Rightarrow> ChessMoveResult" where
  "parseStandardMove cleaned context =
     (case first_match patterns cleaned of
        Some m \<Rightarrow>
          (let piece =
                 (if truthy (group m 1)
                  then (let symbol = map_of pieceSymbols (to_string (group m 1))
                        in if truthy symbol then to_string symbol
                           else toUpperCase (to_string (group m 1)))
                  else []);
               destination = to_string (group m 2);
               check =
                 (if group m 3 = Some ''check'' then ''+''
                  else if group m 3 = Some ''checkmate'' then ''#'' else []);
               san = piece @ destination @ check
           in if (case context of Some ctx \<Rightarrow> san \<in> set (legalMoves ctx) | None \<Rightarrow> False)
              then \<lparr>san = Some san, confidence = 0.9, originalText = cleaned, error = None\<rparr>
              else \<lparr>san = Some san, confidence = 0.7, originalText = cleaned, error = None\<rparr>)
      | None \<Rightarrow> no_move cleaned)"

subsection \<open>parseCastling\<close>

definition parseCastling :: "string \<Rightarrow> ParseContext option \<Rightarrow> ChessMoveResult" where
  "parseCastling cleaned context =
     (if includes_str cleaned ''castle'' then
        (if includes_str cleaned ''short'' \<or> includes_str cleaned ''king side''
         then \<lparr>san = Some ''O-O'', confidence = 0.95, originalText = cleaned, error = None\<rparr>
         else if includes_str cleaned ''long'' \<or> includes_str cleaned ''queen side''
         then \<lparr>san = Some ''O-O-O'', confidence = 0.95, originalText = cleaned, error = None\<rparr>
         else \<lparr>san = Some ''O-O'', confidence = 0.8, originalText = cleaned, error = None\<rparr>)
      else no_move cleaned)"

subsection \<open>parseWithContext\<close>

text \<open>
  The loop over the piece names: for the first name that occurs in the text and for which
  \<open>candidateMoves.find\<close> returns a (truthy) move, that move.
\<close>

fun disambiguate :: "string list \<Rightarrow> string \<Rightarrow> string list \<Rightarrow> string option" where
  "disambiguate [] cleaned candidateMoves = None"
| "disambiguate (piece # pieces) cleaned candidateMoves =
     (if includes_str cleaned piece then
        (let symbol = to_string (map_of pieceSymbols piece);
             found = find (\<lambda>move. if startsWith move symbol then True
                                  else symbol = [] \<and> match_start (Cls ''NQKRB'') move = None)
                          candidateMoves
         in if truthy found then found else disambiguate pieces cleaned candidateMoves)
      else disambiguate pieces cleaned candidateMoves)"

definition parseWithContext :: "string \<Rightarrow> ParseContext option \<Rightarrow> ChessMoveResult" where
  "parseWithContext cleaned context =
     (case context of
        None \<Rightarrow> no_move cleaned
      | Some ctx \<Rightarrow>
          (case match_first (Grp 1 square) cleaned of
             None \<Rightarrow> no_move cleaned
           | Some squareMatch \<Rightarrow>
               (let destination = to_string (group squareMatch 1);
                    candidateMoves =
                      filter (\<lambda>move. includes_str move destination \<and> \<not> includes_str move ''O'')
                        (legalMoves ctx)
                in if length candidateMoves = 1
                   then \<lparr>san = Some (hd candidateMoves), confidence = 0.8,
                          originalText = cleaned, error = None\<rparr>
                   else if length candidateMoves > 1
                   then (case disambiguate [''knight'', ''queen'', ''king'', ''rook'', ''bishop'']
                                cleaned candidateMoves of
                           Some move \<Rightarrow>
                             \<lparr>san = Some move, confidence = 0.85,
                              originalText = cleaned, error = None\<rparr>
                         | None \<Rightarrow> no_move cleaned)
                   else no_move cleaned)))"

subsection \<open>parseMove\<close>

text \<open>
  The loop over the strategies: the result of the first one whose \<open>san\<close> is truthy. (The
  \<open>console.log\<close> of the transcript has no part in the result.)
\<close>

definition strategies :: "(string \<Rightarrow> ParseContext option \<Rightarrow> ChessMoveResult) list" where
  "strategies = [parseStandardMove, parseCastling, parseWithContext]"

fun first_result ::
  "(string \<Rightarrow> ParseContext option \<Rightarrow> ChessMoveResult) list \<Rightarrow> string \<Rightarrow> ParseContext option \<Rightarrow>
   ChessMoveResult option" where
  "first_result [] cleaned context = None"
| "first_result (strategy # rest) cleaned context =
     (let result = strategy cleaned context
      in if truthy (san result) then Some result else first_result rest cleaned context)"

definition parseMove :: "string \<Rightarrow> ParseContext option \<Rightarrow> ChessMoveResult" where
  "parseMove transcript context =
     (let originalText = transcript;
          cleaned = cleanTranscript transcript
      in case first_result strategies cleaned context of
           Some result \<Rightarrow> result
         | None \<Rightarrow>
             \<lparr>san = None, confidence = 0, originalText = originalText,
              error = Some ''Could not parse chess move''\<rparr>)"

section \<open>The spoken confirmation (src/ts/voice/TTSConfirmation.ts)\<close>

text \<open>\<open>san[i]\<close>: the character at index \<open>i\<close>, \<open>undefined\<close> past the end.\<close>

definition char_at :: "string \<Rightarrow> nat \<Rightarrow> char option" where
  "char_at s i = (if i < length s then Some (s ! i) else None)"

text \<open>The two tables \<open>pieceNames\<close>: of the moving piece and of the promotion piece.\<close>

definition pieceNames :: "(char \<times> string) list" where
  "pieceNames =
     [(CHR ''N'', ''Knight''), (CHR ''Q'', ''Queen''), (CHR ''K'', ''King''),
      (CHR ''R'', ''Rook''), (CHR ''B'', ''Bishop'')]"

definition promotionNames :: "(char \<times> string) list" where
  "promotionNames =
     [(CHR ''N'', ''knight''), (CHR ''Q'', ''queen''), (CHR ''R'', ''rook''),
      (CHR ''B'', ''bishop'')]"

text \<open>
  \<open>formatMoveConfirmation\<close> walks its argument \<open>san\<close> (here \<open>san_str\<close>, the name being
  taken by the field of the result) with an index \<open>i\<close> and appends to \<open>result\<close>; each step
  below takes and returns the pair of the two.
\<close>

type_synonym fstate = "string \<times> nat"

definition piece_step :: "string \<Rightarrow> fstate \<Rightarrow> fstate" where
  "piece_step san_str = (\<lambda>(result, i).
     case char_at san_str 0 of
       Some c \<Rightarrow>
         if c \<in> set ''NQKRB'' then (result @ to_string (map_of pieceNames c), i + 1)
         else (result @ ''Pawn'', i)
     | None \<Rightarrow> (result @ ''Pawn'', i))"

definition disambiguation_step :: "string \<Rightarrow> fstate \<Rightarrow> fstate" where
  "disambiguation_step san_str = (\<lambda>(result, i).
     case char_at san_str i of
       Some c \<Rightarrow>
         if c \<in> set ''abcdefgh'' then (result @ '' on '' @ [c] @ ''-file'', i + 1)
         else if c \<in> set ''12345678'' then (result @ '' on rank '' @ [c], i + 1)
         else (result, i)
     | None \<Rightarrow> (result, i))"

definition capture_step :: "string \<Rightarrow> fstate \<Rightarrow> fstate" where
  "capture_step san_str = (\<lambda>(result, i).
     if char_at san_str i = Some CHR ''x'' then (result @ '' takes'', i + 1)
     else (result @ '' to'', i))"

definition destination_step :: "string \<Rightarrow> fstate \<Rightarrow> fstate" where
  "destination_step san_str = (\<lambda>(result, i).
     case (char_at san_str i, char_at san_str (i + 1)) of
       (Some c, Some d) \<Rightarrow> (result @ '' '' @ [c] @ ''-'' @ [d], i + 2)
     | _ \<Rightarrow> (result, i))"

definition promotion_step :: "string \<Rightarrow> fstate \<Rightarrow> fstate" where
  "promotion_step san_str = (\<lambda>(result, i).
     if char_at san_str i = Some CHR ''='' then
       (case char_at san_str (i + 1) of
          Some c \<Rightarrow> (result @ '', promotes to '' @ to_string (map_of promotionNames c), i + 2)
        | None \<Rightarrow> (result, i + 1))
     else (result, i))"

definition check_step :: "string \<Rightarrow> fstate \<Rightarrow> fstate" where
  "check_step san_str = (\<lambda>(result, i).
     if char_at san_str i = Some CHR ''+'' then (result @ '', check'', i)
     else if char_at san_str i = Some CHR ''#'' then (result @ '', checkmate'', i)
     else (result, i))"

definition formatMoveConfirmation :: "string \<Rightarrow> string" where
  "formatMoveConfirmation san_str =
     (if san_str = ''O-O'' then ''Short castle confirmed''
      else if san_str = ''O-O-O'' then ''Long castle confirmed''
      else
        fst (check_step san_str (promotion_step san_str (destination_step san_str (capture_step san_str
          (disambiguation_step san_str (piece_step san_str ([], 0))))))) @ '' confirmed'')"

section \<open>Evaluating the parser\<close>

lemmas parse_defs =
  parseMove_def strategies_def parseStandardMove_def parseCastling_def parseWithContext_def
  no_move_def group_def Let_def

subsection \<open>A bare destination square\<close>

lemma clean_f3: "cleanTranscript ''f3'' = ''f3''"
  by code_simp

lemma patterns_f3: "first_match patterns ''f3'' = Some [(2, ''f3'')]"
  by code_simp

text \<open>
  Claim C1: with exactly one legal move to the spoken square, \<open>parseMove\<close> returns that legal
  move with confidence at least 0.80. The code does not: on the transcript \<open>f3\<close> with the legal
  moves \<open>Nf3\<close>, \<open>e4\<close>, \<open>d4\<close> (the input of the repository's test "should find unique legal moves
  to a square", which expects \<open>Nf3\<close>), only \<open>Nf3\<close> goes to \<open>f3\<close>, but the third standard pattern,
  whose piece letter is optional, matches the bare square first, and \<open>parseMove\<close> returns the
  unvalidated \<open>f3\<close> with confidence 0.7; the context-driven strategy is never reached.
\<close>

theorem parseMove_bare_square_not_resolved:
  "filter (\<lambda>move. includes_str move ''f3'') [''Nf3'', ''e4'', ''d4''] = [''Nf3''] \<and>
   parseMove ''f3''
     (Some \<lparr>currentFEN = fen, legalMoves = [''Nf3'', ''e4'', ''d4''], lastMove = lm,
            playerColor = pc\<rparr>) =
   \<lparr>san = Some ''f3'', confidence = 0.7, originalText = ''f3'', error = None\<rparr>"
  apply (simp only: parse_defs clean_f3 patterns_f3 first_result.simps)
  apply simp
  done

subsection \<open>Castling\<close>

lemma clean_castle_short: "cleanTranscript ''castle short'' = ''rook short''"
  by code_simp

lemma clean_castle_queen_side: "cleanTranscript ''castle queen side'' = ''rook queen side''"
  by code_simp

lemma no_pattern_rook_short: "first_match patterns ''rook short'' = None"
  by code_simp

lemma no_pattern_rook_queen_side: "first_match patterns ''rook queen side'' = None"
  by code_simp

lemma no_castle_rook_short: "includes_str ''rook short'' ''castle'' = False"
  by code_simp

lemma no_castle_rook_queen_side: "includes_str ''rook queen side'' ''castle'' = False"
  by code_simp

lemma no_square_rook_short: "match_first (Grp 1 square) ''rook short'' = None"
  by code_simp

lemma no_square_rook_queen_side: "match_first (Grp 1 square) ''rook queen side'' = None"
  by code_simp

text \<open>
  Claim C3: \<open>parseMove\<close> of \<open>castle short\<close> with the legal moves \<open>O-O\<close>, \<open>O-O-O\<close> returns \<open>O-O\<close>,
  and of \<open>castle queen side\<close> returns \<open>O-O-O\<close>. The code does not: \<open>cleanTranscript\<close> replaces
  the word \<open>castle\<close> by \<open>rook\<close> (its entry in \<open>homophones\<close>), so \<open>parseCastling\<close> finds no
  \<open>castle\<close> in the cleaned text, no other strategy applies, and both calls return the failure
  result.
\<close>

theorem parseMove_castle_not_recognised:
  "parseMove ''castle short''
     (Some \<lparr>currentFEN = fen, legalMoves = [''O-O'', ''O-O-O''], lastMove = lm,
            playerColor = pc\<rparr>) =
   \<lparr>san = None, confidence = 0, originalText = ''castle short'',
    error = Some ''Could not parse chess move''\<rparr> \<and>
   parseMove ''castle queen side''
     (Some \<lparr>currentFEN = fen, legalMoves = [''O-O'', ''O-O-O''], lastMove = lm,
            playerColor = pc\<rparr>) =
   \<lparr>san = None, confidence = 0, originalText = ''castle queen side'',
    error = Some ''Could not parse chess move''\<rparr>"
  apply (simp only: parse_defs clean_castle_short clean_castle_queen_side no_pattern_rook_short
      no_pattern_rook_queen_side no_castle_rook_short no_castle_rook_queen_side
      no_square_rook_short no_square_rook_queen_side first_result.simps)
  apply simp
  done

subsection \<open>A pawn capture\<close>

lemma clean_pawn_takes_d5: "cleanTranscript ''pawn takes d5'' = ''pawn takes d5''"
  by code_simp

lemma pattern_pawn_takes_d5:
  "first_match patterns ''pawn takes d5'' = Some [(2, ''d5''), (1, ''pawn'')]"
  by code_simp

lemma upper_pawn: "toUpperCase ''pawn'' = ''PAWN''"
  by code_simp

text \<open>
  Claim C4: \<open>parseMove\<close> of \<open>pawn takes d5\<close> with the legal moves \<open>exd5\<close>, \<open>Nxd5\<close>, \<open>Qxd5\<close>
  returns \<open>exd5\<close>. The code does not: the first standard pattern matches with the piece
  \<open>pawn\<close>, whose symbol in \<open>pieceSymbols\<close> is the empty string; that is falsy, so
  \<open>this.pieceSymbols[match[1]] || match[1].toUpperCase()\<close> is \<open>PAWN\<close>, and the result is the
  unvalidated \<open>PAWNd5\<close> with confidence 0.7.
\<close>

theorem parseMove_pawn_takes_d5:
  "parseMove ''pawn takes d5''
     (Some \<lparr>currentFEN = fen, legalMoves = [''exd5'', ''Nxd5'', ''Qxd5''], lastMove = lm,
            playerColor = pc\<rparr>) =
   \<lparr>san = Some ''PAWNd5'', confidence = 0.7, originalText = ''pawn takes d5'', error = None\<rparr>"
  apply (simp only: parse_defs clean_pawn_takes_d5 pattern_pawn_takes_d5 first_result.simps)
  apply (simp add: upper_pawn pieceSymbols_def)
  done

subsection \<open>A promotion, spoken\<close>

text \<open>
  Claim C5: \<open>formatMoveConfirmation\<close> of \<open>e8=Q\<close> is "Pawn to e-8, promotes to queen confirmed".
  The code does not return it: the disambiguation step takes the pawn's file \<open>e\<close> for a
  disambiguator, so the destination step reads \<open>8=\<close> as the square and the promotion step
  finds \<open>Q\<close> where it looks for \<open>=\<close>.
\<close>

theorem formatMoveConfirmation_promotion:
  "formatMoveConfirmation ''e8=Q'' = ''Pawn on e-file to 8-= confirmed''"
  by code_simp

subsection \<open>Stop words\<close>

text \<open>
  Claim C6: \<open>cleanTranscript\<close> drops the tokens whose entry in \<open>homophones\<close> is the empty string
  (\<open>the\<close>, \<open>move\<close>, \<open>piece\<close>). The code keeps them: the empty entry is falsy, so
  \<open>this.homophones[word] || word\<close> is the word itself, which the filter lets through. The
  first transcript is the one of the repository's test "should remove filler words", which
  expects \<open>knight 2 f3\<close>.
\<close>

theorem cleanTranscript_keeps_stop_words:
  "cleanTranscript ''move the knight to f3'' = ''move the knight 2 f3'' \<and>
   cleanTranscript ''the'' = ''the'' \<and> cleanTranscript ''move'' = ''move'' \<and>
   cleanTranscript ''piece'' = ''piece''"
  by code_simp

subsection \<open>Disambiguation by the word pawn\<close>

lemma clean_pawn_d5: "cleanTranscript ''pawn d5'' = ''pawn d5''"
  by code_simp

lemma no_pattern_pawn_d5: "first_match patterns ''pawn d5'' = None"
  by code_simp

lemma no_castle_pawn_d5: "includes_str ''pawn d5'' ''castle'' = False"
  by code_simp

lemma square_pawn_d5: "match_first (Grp 1 square) ''pawn d5'' = Some [(1, ''d5'')]"
  by code_simp

lemma candidates_pawn_d5:
  "filter (\<lambda>move. includes_str move ''d5'' \<and> \<not> includes_str move ''O'') [''exd5'', ''Nxd5''] =
   [''exd5'', ''Nxd5'']"
  by code_simp

lemma disambiguate_pawn_d5:
  "disambiguate [''knight'', ''queen'', ''king'', ''rook'', ''bishop''] ''pawn d5''
     [''exd5'', ''Nxd5''] = None"
  by code_simp

text \<open>
  Claim C7: when several legal moves share the spoken square and the text has the token
  \<open>pawn\<close>, the candidates are narrowed to those without a leading piece letter, and a single
  one left is returned with confidence 0.85. The code does not: the loop of \<open>parseWithContext\<close>
  runs over \<open>knight\<close>, \<open>queen\<close>, \<open>king\<close>, \<open>rook\<close>, \<open>bishop\<close> only, so the branch of its test
  written for the pawn (\<open>symbol === ''\<close>) is never taken. On \<open>pawn d5\<close> with the legal moves
  \<open>exd5\<close>, \<open>Nxd5\<close> both moves are candidates, \<open>exd5\<close> is the only one without a piece letter,
  and \<open>parseMove\<close> returns the failure result.
\<close>

theorem parseMove_pawn_not_disambiguated:
  "parseMove ''pawn d5''
     (Some \<lparr>currentFEN = fen, legalMoves = [''exd5'', ''Nxd5''], lastMove = lm,
            playerColor = pc\<rparr>) =
   \<lparr>san = None, confidence = 0, originalText = ''pawn d5'',
    error = Some ''Could not parse chess move''\<rparr>"
  apply (simp only: parse_defs clean_pawn_d5 no_pattern_pawn_d5 no_castle_pawn_d5 square_pawn_d5
      first_result.simps option.case map_of.simps fst_conv snd_conv if_True to_string.simps
      ParseContext.simps candidates_pawn_d5 disambiguate_pawn_d5)
  apply simp
  done

section \<open>What every result of parseMove satisfies\<close>

text \<open>
  Each strategy returns either \<open>no_move\<close> of the cleaned text or a move with a positive
  confidence and the cleaned text.
\<close>

lemma parseStandardMove_result:
  "parseStandardMove cleaned context = no_move cleaned \<or>
   (san (parseStandardMove cleaned context) \<noteq> None \<and>
    0 < confidence (parseStandardMove cleaned context) \<and>
    originalText (parseStandardMove cleaned context) = cleaned)"
  by (simp add: parseStandardMove_def Let_def split: option.split)

lemma parseCastling_result:
  "parseCastling cleaned context = no_move cleaned \<or>
   (san (parseCastling cleaned context) \<noteq> None \<and>
    0 < confidence (parseCastling cleaned context) \<and>
    originalText (parseCastling cleaned context) = cleaned)"
  by (simp add: parseCastling_def)

lemma parseWithContext_result:
  "parseWithContext cleaned context = no_move cleaned \<or>
   (san (parseWithContext cleaned context) \<noteq> None \<and>
    0 < confidence (parseWithContext cleaned context) \<and>
    originalText (parseWithContext cleaned context) = cleaned)"
proof (cases "context")
  case None
  then show ?thesis by (simp add: parseWithContext_def)
next
  case (Some ctx)
  show ?thesis
  proof (cases "match_first (Grp 1 square) cleaned")
    case None
    then show ?thesis using Some by (simp add: parseWithContext_def)
  next
    case (Some squareMatch)
    define cm where "cm = filter (\<lambda>move. includes_str move (to_string (group squareMatch 1)) \<and>
        \<not> includes_str move ''O'') (legalMoves ctx)"
    define d where "d = disambiguate [''knight'', ''queen'', ''king'', ''rook'', ''bishop'']
                                cleaned cm"
    have eq: "parseWithContext cleaned context =
      (if length cm = 1
       then \<lparr>san = Some (hd cm), confidence = 0.8, originalText = cleaned, error = None\<rparr>
       else if length cm > 1
       then (case d of
               Some move \<Rightarrow>
                 \<lparr>san = Some move, confidence = 0.85, originalText = cleaned, error = None\<rparr>
             | None \<Rightarrow> no_move cleaned)
       else no_move cleaned)"
      unfolding parseWithContext_def \<open>context = Some ctx\<close> Some cm_def d_def
      by (simp only: option.case Let_def)
    show ?thesis unfolding eq by (cases d) simp_all
  qed
qed

lemma strategy_result:
  assumes "strategy \<in> set strategies"
  shows "strategy cleaned context = no_move cleaned \<or>
         (san (strategy cleaned context) \<noteq> None \<and>
          0 < confidence (strategy cleaned context) \<and>
          originalText (strategy cleaned context) = cleaned)"
proof -
  from assms consider "strategy = parseStandardMove" | "strategy = parseCastling"
    | "strategy = parseWithContext"
    by (auto simp add: strategies_def)
  then show ?thesis
  proof cases
    case 1
    show ?thesis unfolding 1 by (rule parseStandardMove_result)
  next
    case 2
    show ?thesis unfolding 2 by (rule parseCastling_result)
  next
    case 3
    show ?thesis unfolding 3 by (rule parseWithContext_result)
  qed
qed

lemma first_result_Some:
  "first_result ss cleaned context = Some r \<Longrightarrow>
   \<exists>strategy \<in> set ss. r = strategy cleaned context \<and> truthy (san r)"
  by (induction ss) (auto simp add: Let_def split: if_splits)

lemma first_result_None:
  "(first_result ss cleaned context = None) =
   (\<forall>strategy \<in> set ss. \<not> truthy (san (strategy cleaned context)))"
  by (induction ss) (auto simp add: Let_def)

lemma first_result_strategies:
  assumes "first_result strategies cleaned context = Some r"
  shows "san r \<noteq> None \<and> 0 < confidence r \<and> originalText r = cleaned"
proof -
  from assms obtain strategy where s: "strategy \<in> set strategies"
    and r: "r = strategy cleaned context" and t: "truthy (san r)"
    using first_result_Some by blast
  from t have "r \<noteq> no_move cleaned" by (auto simp add: no_move_def)
  with strategy_result [OF s, of cleaned "context"] r show ?thesis by simp
qed

text \<open>
  Claim C8: for every transcript and every context, present or absent, the result of
  \<open>parseMove\<close> has \<open>san\<close> null if and only if its confidence is 0; a successful parse has
  a strictly positive confidence.
\<close>

theorem parseMove_san_null_iff_confidence_zero:
  "(san (parseMove transcript context) = None \<longleftrightarrow>
      confidence (parseMove transcript context) = 0) \<and>
   (san (parseMove transcript context) \<noteq> None \<longrightarrow>
      0 < confidence (parseMove transcript context))"
proof (cases "first_result strategies (cleanTranscript transcript) context")
  case None
  then show ?thesis by (simp add: parseMove_def)
next
  case (Some r)
  from first_result_strategies [OF Some] have "san r \<noteq> None" and "0 < confidence r"
    and "originalText r = cleanTranscript transcript"
    by simp_all
  moreover have "parseMove transcript context = r" using Some by (simp add: parseMove_def)
  ultimately show ?thesis by auto
qed

text \<open>
  Claim C9: whenever no strategy produces a non-null \<open>san\<close>, \<open>parseMove\<close> returns exactly
  the result with \<open>san\<close> null, confidence 0, the error "Could not parse chess move" and the
  original transcript: no move is guessed. The transcript \<open>gibberish nonsense\<close> is such a
  case, with every context.
\<close>

theorem parseMove_all_strategies_fail:
  assumes "\<forall>strategy \<in> set strategies.
             san (strategy (cleanTranscript transcript) context) = None"
  shows "parseMove transcript context =
         \<lparr>san = None, confidence = 0, originalText = transcript,
          error = Some ''Could not parse chess move''\<rparr>"
proof -
  from assms have "first_result strategies (cleanTranscript transcript) context = None"
    by (simp add: first_result_None)
  then show ?thesis by (simp add: parseMove_def)
qed

text \<open>
  Claim C10: when a strategy succeeds, \<open>originalText\<close> of the result is the cleaned
  transcript, not the raw one; the result of the failure of all strategies carries the raw
  transcript.
\<close>

theorem parseMove_originalText:
  "(san (parseMove transcript context) \<noteq> None \<longrightarrow>
      originalText (parseMove transcript context) = cleanTranscript transcript) \<and>
   (san (parseMove transcript context) = None \<longrightarrow>
      originalText (parseMove transcript context) = transcript)"
proof (cases "first_result strategies (cleanTranscript transcript) context")
  case None
  then show ?thesis by (simp add: parseMove_def)
next
  case (Some r)
  from first_result_strategies [OF Some] have "san r \<noteq> None" and "0 < confidence r"
    and "originalText r = cleanTranscript transcript"
    by simp_all
  moreover have "parseMove transcript context = r" using Some by (simp add: parseMove_def)
  ultimately show ?thesis by auto
qed


subsection \<open>The three properties at concrete transcripts\<close>

lemma clean_gibberish: "cleanTranscript ''gibberish nonsense'' = ''gibberish nonsense''"
  by code_simp

lemma no_pattern_gibberish: "first_match patterns ''gibberish nonsense'' = None"
  by code_simp

lemma no_castle_gibberish: "includes_str ''gibberish nonsense'' ''castle'' = False"
  by code_simp

lemma no_square_gibberish: "match_first (Grp 1 square) ''gibberish nonsense'' = None"
  by code_simp

lemma strategies_gibberish:
  "\<forall>strategy \<in> set strategies. san (strategy ''gibberish nonsense'' ctx) = None"
  apply (simp add: strategies_def)
  apply (simp only: parseStandardMove_def parseCastling_def parseWithContext_def
      no_pattern_gibberish no_castle_gibberish no_square_gibberish)
  apply (simp add: no_move_def split: option.split)
  done

theorem parseMove_all_strategies_fail_witness:
  "\<forall>ctx. parseMove ''gibberish nonsense'' ctx =
     \<lparr>san = None, confidence = 0, originalText = ''gibberish nonsense'',
      error = Some ''Could not parse chess move''\<rparr>"
proof
  fix ctx
  have "\<forall>strategy \<in> set strategies.
          san (strategy (cleanTranscript ''gibberish nonsense'') ctx) = None"
    unfolding clean_gibberish by (rule strategies_gibberish)
  then show "parseMove ''gibberish nonsense'' ctx =
     \<lparr>san = None, confidence = 0, originalText = ''gibberish nonsense'',
      error = Some ''Could not parse chess move''\<rparr>"
    by (rule parseMove_all_strategies_fail)
qed

lemma parseMove_e4: "san (parseMove ''e4'' None) = Some ''e4''"
  by code_simp

lemma parseMove_nonsense: "san (parseMove ''Gibberish, nonsense!'' None) = None"
  by code_simp

theorem parseMove_san_null_iff_confidence_zero_witness:
  "san (parseMove ''e4'' None) \<noteq> None \<and> 0 < confidence (parseMove ''e4'' None) \<and>
   san (parseMove ''Gibberish, nonsense!'' None) = None \<and>
   confidence (parseMove ''Gibberish, nonsense!'' None) = 0"
  using parseMove_san_null_iff_confidence_zero [of "''e4''" None]
    parseMove_san_null_iff_confidence_zero [of "''Gibberish, nonsense!''" None]
  by (simp add: parseMove_e4 parseMove_nonsense)

lemma parseMove_Knight_F3: "san (parseMove ''Knight to F3!'' None) = Some ''Nf3''"
  by code_simp

lemma clean_Knight_F3: "cleanTranscript ''Knight to F3!'' = ''knight 2 f3''"
  by code_simp

theorem parseMove_originalText_witness:
  "san (parseMove ''Knight to F3!'' None) \<noteq> None \<and>
   originalText (parseMove ''Knight to F3!'' None) = ''knight 2 f3'' \<and>
   san (parseMove ''Gibberish, nonsense!'' None) = None \<and>
   originalText (parseMove ''Gibberish, nonsense!'' None) = ''Gibberish, nonsense!''"
  using parseMove_originalText [of "''Knight to F3!''" None]
    parseMove_originalText [of "''Gibberish, nonsense!''" None]
  by (simp add: parseMove_Knight_F3 parseMove_nonsense clean_Knight_F3)

section \<open>cleanTranscript applied twice\<close>

subsection \<open>Characters and table entries\<close>

lemma token_chars_all:
  "list_all (\<lambda>c. toLowerChar c = c \<and> is_word_char c \<and> \<not> is_space c) token_chars"
  by code_simp

lemma space_chars_all: "list_all (\<lambda>c. toLowerChar c = c) space_chars"
  by code_simp

lemma capitals_all:
  "list_all (\<lambda>c. 65 \<le> (of_char c :: nat) \<and> (of_char c :: nat) \<le> 90)
     ''ABCDEFGHIJKLMNOPQRSTUVWXYZ''"
  by code_simp

lemma homophone_values_tokens:
  "list_all (\<lambda>(k, v). list_all (\<lambda>c. c \<in> set token_chars) v) homophones"
  by code_simp


lemma homophone_values_fixed:
  "list_all (\<lambda>(k, v). v = [] \<or> k \<in> set remapped_words \<or> substitute v = v) homophones"
  by code_simp

lemma substitute_empty: "substitute [] = []"
  by code_simp

lemma token_char_props:
  assumes "c \<in> set token_chars"
  shows "toLowerChar c = c" and "is_word_char c" and "\<not> is_space c"
  using assms token_chars_all by (auto simp add: list_all_iff)

lemma space_lower: "is_space c \<Longrightarrow> toLowerChar c = c"
  using space_chars_all by (auto simp add: list_all_iff is_space_def)

lemma toLowerChar_not_capital:
  "toLowerChar c \<notin> set ''ABCDEFGHIJKLMNOPQRSTUVWXYZ''"
proof
  assume a: "toLowerChar c \<in> set ''ABCDEFGHIJKLMNOPQRSTUVWXYZ''"
  then have r: "65 \<le> (of_char (toLowerChar c) :: nat) \<and> (of_char (toLowerChar c) :: nat) \<le> 90"
    using capitals_all unfolding list_all_iff by blast
  define n where "n = (of_char c :: nat)"
  have n: "n < 256" unfolding n_def by simp
  show False
  proof (cases "(65 \<le> n \<and> n \<le> 90) \<or> (192 \<le> n \<and> n \<le> 222 \<and> n \<noteq> 215)")
    case True
    then have "toLowerChar c = char_of (n + 32)"
      unfolding toLowerChar_def n_def Let_def by (simp only: if_True)
    moreover have "(n + 32) mod 256 = n + 32" using True by auto
    ultimately have "(of_char (toLowerChar c) :: nat) = n + 32" by simp
    with r True show False by auto
  next
    case False
    then have "toLowerChar c = c"
      unfolding toLowerChar_def n_def Let_def by (simp only: if_False)
    with r False show False by (simp add: n_def)
  qed
qed

lemma word_char_lower_token:
  assumes "is_word_char (toLowerChar c)"
  shows "toLowerChar c \<in> set token_chars"
proof -
  from assms have "toLowerChar c \<in> set token_chars \<or>
      toLowerChar c \<in> set ''ABCDEFGHIJKLMNOPQRSTUVWXYZ''"
    unfolding is_word_char_def word_chars_def token_chars_def by auto
  with toLowerChar_not_capital show ?thesis by blast
qed


subsection \<open>The words of a transcript\<close>

lemma cleaned_chars:
  assumes "c \<in> set (strip_punctuation (toLowerCase text))"
  shows "is_space c \<or> c \<in> set token_chars"
proof -
  define f where "f = (\<lambda>d. if is_word_char (toLowerChar d) \<or> is_space (toLowerChar d)
      then toLowerChar d else CHR '' '')"
  have "strip_punctuation (toLowerCase text) = map f text"
    by (simp add: strip_punctuation_def toLowerCase_def f_def)
  with assms obtain d where c: "c = f d" by auto
  have sp: "is_space CHR '' ''" by (simp add: is_space_def space_chars_def)
  have "is_space (f d) \<or> f d \<in> set token_chars"
  proof (cases "is_word_char (toLowerChar d) \<or> is_space (toLowerChar d)")
    case True
    then have "f d = toLowerChar d" by (simp add: f_def)
    with True word_char_lower_token [of d] show ?thesis by auto
  next
    case False
    then have "f d = CHR '' ''" by (simp add: f_def)
    with sp show ?thesis by simp
  qed
  with c show ?thesis by simp
qed

lemma split_spaces_unfold:
  "split_spaces s =
     (if dropWhile (\<lambda>c. \<not> is_space c) s = [] then [takeWhile (\<lambda>c. \<not> is_space c) s]
      else takeWhile (\<lambda>c. \<not> is_space c) s #
           split_spaces (dropWhile is_space (dropWhile (\<lambda>c. \<not> is_space c) s)))"
  by (subst split_spaces.simps) (simp only: Let_def)

lemma split_spaces_chars:
  "w \<in> set (split_spaces s) \<Longrightarrow> c \<in> set w \<Longrightarrow> c \<in> set s \<and> \<not> is_space c"
proof (induction s rule: split_spaces.induct)
  case (1 s)
  define w0 where "w0 = takeWhile (\<lambda>c. \<not> is_space c) s"
  define r where "r = dropWhile (\<lambda>c. \<not> is_space c) s"
  have first: "c \<in> set w0 \<Longrightarrow> c \<in> set s \<and> \<not> is_space c"
    unfolding w0_def by (auto dest: set_takeWhileD)
  have unfold: "split_spaces s =
      (if r = [] then [w0] else w0 # split_spaces (dropWhile is_space r))"
    unfolding w0_def r_def by (rule split_spaces_unfold)
  show ?case
  proof (cases "r = []")
    case True
    with unfold have "split_spaces s = [w0]" by simp
    with "1.prems" first show ?thesis by simp
  next
    case False
    with unfold have eq: "split_spaces s = w0 # split_spaces (dropWhile is_space r)" by simp
    show ?thesis
    proof (cases "w = w0")
      case True
      with "1.prems" first show ?thesis by simp
    next
      case w: False
      with "1.prems" eq have "w \<in> set (split_spaces (dropWhile is_space r))" by simp
      then have "c \<in> set (dropWhile is_space r) \<and> \<not> is_space c"
        using "1.IH" [OF w0_def r_def False] "1.prems" by simp
      moreover have "set (dropWhile is_space r) \<subseteq> set s"
        unfolding r_def by (auto dest!: set_dropWhileD)
      ultimately show ?thesis by auto
    qed
  qed
qed

lemma words_tokens:
  assumes "w \<in> set (split_spaces (strip_punctuation (toLowerCase text)))"
  shows "set w \<subseteq> set token_chars"
  using split_spaces_chars [OF assms] cleaned_chars by blast

lemma substitute_word:
  assumes w: "set w \<subseteq> set token_chars" and n: "w \<notin> set remapped_words"
  shows "set (substitute w) \<subseteq> set token_chars \<and> substitute (substitute w) = substitute w"
proof (cases "map_of homophones w")
  case None
  then have "substitute w = w" using n by (simp add: substitute_def remapped_words_def)
  with w show ?thesis by simp
next
  case (Some v)
  show ?thesis
  proof (cases "v = []")
    case True
    then have "substitute w = w" using Some by (simp add: substitute_def)
    with w show ?thesis by simp
  next
    case False
    then have s: "substitute w = v" using Some by (simp add: substitute_def)
    from Some have "(w, v) \<in> set homophones" by (rule map_of_SomeD)
    with homophone_values_tokens homophone_values_fixed n False
    have "set v \<subseteq> set token_chars" and "substitute v = v"
      unfolding list_all_iff by auto
    with s show ?thesis by simp
  qed
qed


subsection \<open>Splitting what join has joined\<close>

lemma join_Cons: "\<exists>r. join (w # ws) = w @ r"
  by (cases ws) auto

lemma join_chars: "c \<in> set (join ws) \<Longrightarrow> c = CHR '' '' \<or> (\<exists>w \<in> set ws. c \<in> set w)"
  by (induction ws rule: join.induct) auto

lemma split_spaces_word:
  assumes "\<forall>c \<in> set w. \<not> is_space c"
  shows "split_spaces w = [w]"
proof -
  from assms have "dropWhile (\<lambda>c. \<not> is_space c) w = []"
    and "takeWhile (\<lambda>c. \<not> is_space c) w = w"
    by simp_all
  then show ?thesis by (subst split_spaces_unfold) simp
qed

lemma split_spaces_join:
  assumes "ws \<noteq> []" and "\<forall>w \<in> set ws. w \<noteq> [] \<and> (\<forall>c \<in> set w. \<not> is_space c)"
  shows "split_spaces (join ws) = ws"
  using assms
proof (induction ws rule: join.induct)
  case 1
  then show ?case by simp
next
  case (2 w)
  then show ?case by (simp add: split_spaces_word)
next
  case (3 w v ws)
  define rest where "rest = join (v # ws)"
  have sp: "is_space CHR '' ''" by (simp add: is_space_def space_chars_def)
  have w: "\<forall>c \<in> set w. \<not> is_space c" using "3.prems" by simp
  from "3.prems" obtain a v' where v: "v = a # v'" and a: "\<not> is_space a"
    by (cases v) auto
  from join_Cons [of v ws] obtain r where "rest = a # v' @ r" unfolding rest_def v by auto
  then have drop_rest: "dropWhile is_space (CHR '' '' # rest) = rest" using sp a by simp
  have tw: "takeWhile (\<lambda>c. \<not> is_space c) (w @ CHR '' '' # rest) = w"
    using w sp by (simp add: takeWhile_append2)
  have dw: "dropWhile (\<lambda>c. \<not> is_space c) (w @ CHR '' '' # rest) = CHR '' '' # rest"
    using w sp by (simp add: dropWhile_append2)
  have "split_spaces (w @ CHR '' '' # rest) = w # split_spaces rest"
    by (subst split_spaces_unfold) (simp only: tw dw drop_rest list.distinct if_False)
  moreover have "split_spaces rest = v # ws"
    unfolding rest_def using "3.IH" "3.prems" by simp
  ultimately show ?case by (simp add: rest_def)
qed

subsection \<open>The second application\<close>

lemma cleanTranscript_join:
  assumes "\<forall>w \<in> set ws. w \<noteq> [] \<and> set w \<subseteq> set token_chars \<and> substitute w = w"
  shows "cleanTranscript (join ws) = join ws"
proof -
  have sp: "is_space CHR '' ''" by (simp add: is_space_def space_chars_def)
  have chars: "c \<in> set (join ws) \<Longrightarrow> c = CHR '' '' \<or> c \<in> set token_chars" for c
    using join_chars [of c ws] assms by auto
  have "toLowerCase (join ws) = join ws"
    unfolding toLowerCase_def
    using chars token_char_props(1) space_lower [OF sp] by (intro map_idI) auto
  moreover have "strip_punctuation (join ws) = join ws"
    unfolding strip_punctuation_def
    using chars token_char_props(2) sp by (intro map_idI) auto
  ultimately have cleaned: "strip_punctuation (toLowerCase (join ws)) = join ws" by simp
  have subst: "map substitute ws = ws" using assms by (intro map_idI) simp
  have nonempty: "filter (\<lambda>word. word \<noteq> []) ws = ws" using assms by (intro filter_True) simp
  show ?thesis
  proof (cases "ws = []")
    case True
    have "split_spaces [] = [[]]" by (subst split_spaces_unfold) simp
    then show ?thesis using True
      by (simp add: cleanTranscript_def strip_punctuation_def toLowerCase_def substitute_empty)
  next
    case False
    have "split_spaces (join ws) = ws"
      using False assms token_char_props(3) by (intro split_spaces_join) auto
    then show ?thesis by (simp add: cleanTranscript_def cleaned subst nonempty)
  qed
qed

text \<open>
  Claim C2, as amended: \<open>cleanTranscript\<close> applied to its own output returns that output,
  for every transcript none of whose words (the pieces of the lower-cased text without its
  punctuation) is \<open>castles\<close>, \<open>be\<close>, \<open>bee\<close>, \<open>constructor\<close> or \<open>__proto__\<close>.
\<close>

theorem cleanTranscript_idempotent:
  assumes "\<forall>word \<in> set (split_spaces (strip_punctuation (toLowerCase text))).
             word \<notin> set remapped_words"
  shows "cleanTranscript (cleanTranscript text) = cleanTranscript text"
proof -
  define ws where "ws = filter (\<lambda>word. word \<noteq> [])
      (map substitute (split_spaces (strip_punctuation (toLowerCase text))))"
  have eq: "cleanTranscript text = join ws" by (simp add: cleanTranscript_def ws_def)
  have "\<forall>w \<in> set ws. w \<noteq> [] \<and> set w \<subseteq> set token_chars \<and> substitute w = w"
  proof
    fix w assume "w \<in> set ws"
    then obtain word where word: "word \<in> set (split_spaces (strip_punctuation (toLowerCase text)))"
      and w: "w = substitute word" and ne: "w \<noteq> []"
      unfolding ws_def by auto
    from substitute_word [OF words_tokens [OF word]] assms word w ne
    show "w \<noteq> [] \<and> set w \<subseteq> set token_chars \<and> substitute w = w" by simp
  qed
  then show ?thesis unfolding eq by (rule cleanTranscript_join)
qed

text \<open>
  Claim C2 as stated, for every transcript, fails: \<open>be\<close> (a spoken file letter) is cleaned
  to \<open>b\<close>, and \<open>b\<close> (the abbreviation of a piece) to \<open>bishop\<close>.
\<close>

theorem cleanTranscript_not_idempotent:
  "cleanTranscript ''be'' = ''b'' \<and>
   cleanTranscript (cleanTranscript ''be'') = ''bishop'' \<and>
   cleanTranscript (cleanTranscript ''be'') \<noteq> cleanTranscript ''be''"
  by code_simp

lemma words_Knight_F3:
  "split_spaces (strip_punctuation (toLowerCase ''Knight to F3!'')) =
   [''knight'', ''to'', ''f3'', []]"
  by code_simp

theorem cleanTranscript_idempotent_witness:
  "split_spaces (strip_punctuation (toLowerCase ''Knight to F3!'')) =
     [''knight'', ''to'', ''f3'', []] \<and>
   cleanTranscript ''Knight to F3!'' = ''knight 2 f3'' \<and>
   cleanTranscript (cleanTranscript ''Knight to F3!'') = cleanTranscript ''Knight to F3!''"
proof -
  have "\<forall>word \<in> set (split_spaces (strip_punctuation (toLowerCase ''Knight to F3!''))).
          word \<notin> set remapped_words"
    unfolding words_Knight_F3 by (simp add: remapped_words_def)
  then have "cleanTranscript (cleanTranscript ''Knight to F3!'') =
      cleanTranscript ''Knight to F3!''"
    by (rule cleanTranscript_idempotent)
  then show ?thesis using words_Knight_F3 clean_Knight_F3 by simp
qed

end
